theory Spec2Isabelle
  imports Main
begin

section \<open>Ledger hardware context (src/contexts/Hardware/Ledger.tsx)\<close>

text \<open>
  The provider component keeps six state slots and talks to an external transport
  provider (\<^verbatim>\<open>TransportWebHID\<close>) and a protocol client (\<^verbatim>\<open>Polkadot\<close>). The
  state slots become a record that every operation takes and returns; the external
  collaborators become parameters whose calls are logged in a trace, and every value
  they can throw becomes the left summand of a result.
\<close>

subsection \<open>Values\<close>

text \<open>
  Modelled from the spec: the declaration of \<^verbatim>\<open>PairingStatus\<close> lives in
  \<^verbatim>\<open>./types\<close>, which is not among the sources; the spec lists its three values.
\<close>

datatype pairing_status = Unknown | Paired | NotPaired

text \<open>The two fields of the transport's \<^verbatim>\<open>deviceModel\<close> that the code reads.\<close>

record device_model =
  id_field :: string
  productName :: string

text \<open>
  The \<^verbatim>\<open>options\<close> object of \<^verbatim>\<open>executeLedgerLoop\<close>. Only \<^verbatim>\<open>accountIndex\<close> is
  read; \<open>None\<close> stands for a field that is \<^verbatim>\<open>undefined\<close> or \<^verbatim>\<open>null\<close>, the two
  values that \<^verbatim>\<open>??\<close> replaces.
\<close>

record ledger_options =
  accountIndex :: "nat option"

datatype json_body = Text string | Addresses "string list"

text \<open>
  Every object the component stores in a state slot: \<^verbatim>\<open>ack\<close> and \<^verbatim>\<open>statusCode\<close>
  are always there, the other fields are \<open>None\<close> where the object literal of the source
  does not have them.
\<close>

record ledger_response =
  ack :: string
  statusCode :: string
  options :: "ledger_options option"
  device :: "device_model option"
  body :: "json_body option"

definition response :: "string \<Rightarrow> string \<Rightarrow> ledger_response" where
  "response a c = \<lparr>ack = a, statusCode = c, options = None, device = None, body = None\<rparr>"

subsection \<open>Thrown values\<close>

text \<open>
  A value caught by \<^verbatim>\<open>catch (err)\<close>: either something the transport provider or the
  protocol client rejected with, of which the code reads only the \<^verbatim>\<open>id\<close> property
  (\<open>None\<close> when the value is nullish or has no string \<^verbatim>\<open>id\<close>), or the
  \<^verbatim>\<open>TypeError\<close> that JavaScript raises when a property of \<^verbatim>\<open>undefined\<close> or
  \<^verbatim>\<open>null\<close> is read.
\<close>

datatype js_error = Rejected "string option" | TypeError

primrec err_id :: "js_error \<Rightarrow> string option" where
  "err_id (Rejected i) = i"
| "err_id TypeError = None"

subsection \<open>The external transport provider\<close>

text \<open>
  What \<^verbatim>\<open>TransportWebHID.create()\<close> resolves to: the handle's \<^verbatim>\<open>deviceModel\<close>
  (possibly nullish), what its \<^verbatim>\<open>close()\<close> does (\<open>None\<close>: resolves), and what the
  protocol client built over it answers to \<^verbatim>\<open>getAddress(path, confirm)\<close>.
\<close>

record transport =
  deviceModel :: "device_model option"
  close :: "js_error option"
  getAddress :: "string \<Rightarrow> bool \<Rightarrow> js_error + string"

text \<open>
  The provider is scripted by the number of the \<^verbatim>\<open>create()\<close> call: call \<open>k\<close>
  (counted from 0) rejects with an error or resolves to a handle, which the trace
  names \<open>k\<close>.
\<close>

type_synonym provider = "nat \<Rightarrow> js_error + transport"

datatype event = Create nat | Close nat | GetAddress nat string bool

record env =
  created :: nat
  trace :: "event list"

definition create :: "provider \<Rightarrow> env \<Rightarrow> (js_error + nat \<times> transport) \<times> env" where
  "create p w =
     (let k = created w;
          w' = w\<lparr>created := Suc k, trace := trace w @ [Create k]\<rparr>
      in (case p k of Inl err \<Rightarrow> (Inl err, w') | Inr t \<Rightarrow> (Inr (k, t), w')))"

definition close_transport :: "nat \<times> transport \<Rightarrow> env \<Rightarrow> (js_error + unit) \<times> env" where
  "close_transport ht w =
     (let w' = w\<lparr>trace := trace w @ [Close (fst ht)]\<rparr>
      in (case close (snd ht) of Some err \<Rightarrow> (Inl err, w') | None \<Rightarrow> (Inr (), w')))"

subsection \<open>State slots\<close>

record ledger_state =
  isPaired :: pairing_status
  isPairedRef :: pairing_status
  isImporting :: bool
  isImportingRef :: bool
  statusCodes :: "ledger_response list"
  statusCodesRef :: "ledger_response list"
  transportError :: "ledger_response option"
  ledgerDeviceInfo :: "device_model option"
  transportResponse :: "ledger_response option"

definition initial_state :: ledger_state where
  "initial_state =
     \<lparr>isPaired = Unknown, isPairedRef = Unknown,
      isImporting = False, isImportingRef = False,
      statusCodes = [], statusCodesRef = [],
      transportError = None, ledgerDeviceInfo = None, transportResponse = None\<rparr>"


text \<open>
  Modelled from the spec: \<^verbatim>\<open>setStateWithRef\<close> is imported from \<^verbatim>\<open>Utils\<close>, which is
  not among the sources. The spec says that the rendering-state copy and the
  synchronously-current mirror are written in lockstep on every write: the value goes
  to the state setter and to the reference.
\<close>

definition setStateWithRef ::
  "'a \<Rightarrow> ('a \<Rightarrow> ledger_state \<Rightarrow> ledger_state) \<Rightarrow> ('a \<Rightarrow> ledger_state \<Rightarrow> ledger_state)
     \<Rightarrow> ledger_state \<Rightarrow> ledger_state" where
  "setStateWithRef v setState setRef s = setRef v (setState v s)"

definition setTransportError :: "ledger_response option \<Rightarrow> ledger_state \<Rightarrow> ledger_state" where
  "setTransportError v s = s\<lparr>transportError := v\<rparr>"

definition setLedgerDeviceInfo :: "device_model option \<Rightarrow> ledger_state \<Rightarrow> ledger_state" where
  "setLedgerDeviceInfo v s = s\<lparr>ledgerDeviceInfo := v\<rparr>"

definition setTransportResponse :: "ledger_response option \<Rightarrow> ledger_state \<Rightarrow> ledger_state" where
  "setTransportResponse v s = s\<lparr>transportResponse := v\<rparr>"

subsection \<open>Operations\<close>

text \<open>\<^verbatim>\<open>handleErrors\<close>, lines 56-68.\<close>

definition handleErrors :: "js_error \<Rightarrow> ledger_state \<Rightarrow> ledger_state" where
  "handleErrors err s =
     (if err_id err = Some ''NoDevice''
      then setTransportError (Some (response ''failure'' ''DeviceNotConnected'')) s
      else setTransportError (Some (response ''failure'' ''AppNotOpen'')) s)"

text \<open>
  \<^verbatim>\<open>checkPaired\<close>, lines 71-78: the handle that \<^verbatim>\<open>create()\<close> resolves to is
  dropped, and no state slot is written.
\<close>

definition checkPaired :: "provider \<Rightarrow> ledger_state \<Rightarrow> env \<Rightarrow> bool \<times> ledger_state \<times> env" where
  "checkPaired p s w =
     (case create p w of
        (Inr ht, w') \<Rightarrow> (True, s, w')
      | (Inl e, w') \<Rightarrow> (False, s, w'))"

text \<open>
  The result of an awaited step: the value or the thrown error, with the state slots
  and the environment as the step left them. Writes made before a throw stay.
\<close>

type_synonym 'a outcome = "(js_error + 'a) \<times> ledger_state \<times> env"

definition try_catch ::
  "'a outcome \<Rightarrow> (js_error \<Rightarrow> ledger_state \<Rightarrow> env \<Rightarrow> 'a outcome) \<Rightarrow> 'a outcome" where
  "try_catch r handler =
     (case r of
        (Inl err, s, w) \<Rightarrow> handler err s w
      | (Inr v, s, w) \<Rightarrow> (Inr v, s, w))"

text \<open>The decimal digits that a template literal prints for a number.\<close>

fun string_of_nat :: "nat \<Rightarrow> string" where
  "string_of_nat n =
     (if n < 10 then [''0123456789'' ! n]
      else string_of_nat (n div 10) @ [''0123456789'' ! (n mod 10)])"

declare string_of_nat.simps [simp del]

definition derivation_path :: "nat \<Rightarrow> string" where
  "derivation_path index =
     ''44'/354'/'' @ string_of_nat index @ '''/0/0''"

definition progress_body :: "nat \<Rightarrow> string" where
  "progress_body index =
     ''Getting addresess '' @ string_of_nat index @ '' in progress.''"

text \<open>
  \<^verbatim>\<open>handleGetAddress\<close>, lines 130-151. Building the protocol client over the
  handle only stores the handle; what the client answers is the handle's
  \<open>getAddress\<close>. Destructuring a nullish \<^verbatim>\<open>deviceModel\<close> raises a
  \<^verbatim>\<open>TypeError\<close> before anything is written. The result is the object of line 146,
  without \<^verbatim>\<open>ack\<close> and \<^verbatim>\<open>options\<close>, which the caller adds.
\<close>

definition handleGetAddress ::
  "nat \<times> transport \<Rightarrow> nat \<Rightarrow> ledger_state \<Rightarrow> env
     \<Rightarrow> (string \<times> device_model \<times> string list) outcome" where
  "handleGetAddress ht index s w =
     (case deviceModel (snd ht) of
        None \<Rightarrow> (Inl TypeError, s, w)
      | Some dm \<Rightarrow>
          (let s1 = setTransportResponse
                      (Some ((response ''success'' ''GettingAddress'')
                               \<lparr>body := Some (Text (progress_body index))\<rparr>)) s;
               w1 = w\<lparr>trace := trace w @ [GetAddress (fst ht) (derivation_path index) False]\<rparr>
           in (case getAddress (snd ht) (derivation_path index) False of
                 Inl err \<Rightarrow> (Inl err, s1, w1)
               | Inr address \<Rightarrow>
                   (Inr (''ReceivedAddress'',
                         \<lparr>id_field = id_field dm, productName = productName dm\<rparr>,
                         [address]), s1, w1))))"

text \<open>
  The body of the first \<^verbatim>\<open>try\<close>, lines 90-99. Its value is the \<^verbatim>\<open>noDevice\<close>
  flag, which stays false when the body completes.
\<close>

definition deviceInfoBody :: "provider \<Rightarrow> ledger_state \<Rightarrow> env \<Rightarrow> bool outcome" where
  "deviceInfoBody p s w =
     (case create p w of
        (Inl err, w1) \<Rightarrow> (Inl err, s, w1)
      | (Inr ht, w1) \<Rightarrow>
          (let s1 = (case deviceModel (snd ht) of
                       None \<Rightarrow> s
                     | Some dm \<Rightarrow>
                         setLedgerDeviceInfo
                           (Some \<lparr>id_field = id_field dm, productName = productName dm\<rparr>) s)
           in (case close_transport ht w1 of
                 (Inl err, w2) \<Rightarrow> (Inl err, s1, w2)
               | (Inr u, w2) \<Rightarrow> (Inr False, s1, w2))))"

text \<open>
  The body of the second \<^verbatim>\<open>try\<close>, lines 109-121. Reading
  \<^verbatim>\<open>options.accountIndex\<close> when \<^verbatim>\<open>options\<close> was not supplied raises a
  \<^verbatim>\<open>TypeError\<close>. The object returned by \<^verbatim>\<open>handleGetAddress\<close> is always truthy.
\<close>

definition addressBody ::
  "provider \<Rightarrow> string list \<Rightarrow> ledger_options option \<Rightarrow> ledger_state \<Rightarrow> env \<Rightarrow> unit outcome" where
  "addressBody p tasks opts s w =
     (case create p w of
        (Inl err, w1) \<Rightarrow> (Inl err, s, w1)
      | (Inr ht, w1) \<Rightarrow>
          (let r = (if ''get_address'' \<in> set tasks then
                      (case opts of
                         None \<Rightarrow> (Inl TypeError, s, w1)
                       | Some o' \<Rightarrow>
                           (case handleGetAddress ht
                                   (case accountIndex o' of None \<Rightarrow> 0 | Some i \<Rightarrow> i) s w1 of
                              (Inl err, s1, w2) \<Rightarrow> (Inl err, s1, w2)
                            | (Inr (code, dev, addrs), s1, w2) \<Rightarrow>
                                (Inr (),
                                 setTransportResponse
                                   (Some \<lparr>ack = ''success'', statusCode = code,
                                          options = opts, device = Some dev,
                                          body = Some (Addresses addrs)\<rparr>) s1,
                                 w2)))
                    else (Inr (), s, w1))
           in (case r of
                 (Inl err, s2, w3) \<Rightarrow> (Inl err, s2, w3)
               | (Inr u, s2, w3) \<Rightarrow>
                   (case close_transport ht w3 of
                      (Inl err, w4) \<Rightarrow> (Inl err, s2, w4)
                    | (Inr u', w4) \<Rightarrow> (Inr (), s2, w4)))))"

text \<open>
  \<^verbatim>\<open>executeLedgerLoop\<close>, lines 81-127. Both \<^verbatim>\<open>catch\<close> blocks call
  \<^verbatim>\<open>handleErrors\<close>; the first one also raises the \<^verbatim>\<open>noDevice\<close> flag.
\<close>

definition executeLedgerLoop ::
  "provider \<Rightarrow> string list \<Rightarrow> ledger_options option \<Rightarrow> ledger_state \<Rightarrow> env \<Rightarrow> unit outcome" where
  "executeLedgerLoop p tasks opts s w =
     (case (if ''get_device_info'' \<in> set tasks
            then try_catch (deviceInfoBody p s w)
                   (\<lambda>err s' w'. (Inr True, handleErrors err s', w'))
            else (Inr False, s, w)) of
        (Inl err, s1, w1) \<Rightarrow> (Inl err, s1, w1)
      | (Inr noDevice, s1, w1) \<Rightarrow>
          (if \<not> noDevice
           then try_catch (addressBody p tasks opts s1 w1)
                  (\<lambda>err s' w'. (Inr (), handleErrors err s', w'))
           else (Inr (), s1, w1)))"


definition setIsPaired :: "pairing_status \<Rightarrow> ledger_state \<Rightarrow> ledger_state" where
  "setIsPaired v s =
     setStateWithRef v (\<lambda>v t. t\<lparr>isPaired := v\<rparr>) (\<lambda>v t. t\<lparr>isPairedRef := v\<rparr>) s"

definition setIsImporting :: "bool \<Rightarrow> ledger_state \<Rightarrow> ledger_state" where
  "setIsImporting v s =
     setStateWithRef v (\<lambda>v t. t\<lparr>isImporting := v\<rparr>) (\<lambda>v t. t\<lparr>isImportingRef := v\<rparr>) s"

definition resetStatusCodes :: "ledger_state \<Rightarrow> ledger_state" where
  "resetStatusCodes s =
     setStateWithRef [] (\<lambda>v t. t\<lparr>statusCodes := v\<rparr>) (\<lambda>v t. t\<lparr>statusCodesRef := v\<rparr>) s"

definition cancelImport :: "ledger_state \<Rightarrow> ledger_state" where
  "cancelImport s = resetStatusCodes (setIsImporting False s)"

definition getIsImporting :: "ledger_state \<Rightarrow> bool" where
  "getIsImporting s = isImportingRef s"

subsection \<open>Renders and calls\<close>









subsection \<open>Simulated transport providers\<close>

text \<open>
  The spec's testable properties are phrased over simulated providers. These are the
  ones used to run the operations on concrete inputs: a device that answers every
  call, one whose address derivation is refused, one whose address derivation is
  refused with the no-device id, one whose handle has no device model, and no device
  at all.
\<close>

definition nano :: device_model where
  "nano = \<lparr>id_field = ''nanoS'', productName = ''Ledger Nano S''\<rparr>"

fun derive_ok :: "string \<Rightarrow> bool \<Rightarrow> js_error + string" where
  "derive_ok path confirm = Inr (''address at '' @ path)"

fun derive_refused :: "string \<Rightarrow> bool \<Rightarrow> js_error + string" where
  "derive_refused path confirm = Inl (Rejected (Some ''TransportStatusError''))"

fun derive_no_device :: "string \<Rightarrow> bool \<Rightarrow> js_error + string" where
  "derive_no_device path confirm = Inl (Rejected (Some ''NoDevice''))"

definition transport_ok :: transport where
  "transport_ok = \<lparr>deviceModel = Some nano, close = None, getAddress = derive_ok\<rparr>"

definition provider_ok :: provider where
  "provider_ok k = Inr transport_ok"

definition provider_refused :: provider where
  "provider_refused k = Inr (transport_ok\<lparr>getAddress := derive_refused\<rparr>)"

definition provider_lost :: provider where
  "provider_lost k = Inr (transport_ok\<lparr>getAddress := derive_no_device\<rparr>)"

definition provider_no_model :: provider where
  "provider_no_model k = Inr (transport_ok\<lparr>deviceModel := None\<rparr>)"

definition provider_no_device :: provider where
  "provider_no_device k = Inl (Rejected (Some ''NoDevice''))"

definition env0 :: env where
  "env0 = \<lparr>created = 0, trace = []\<rparr>"

section \<open>Auxiliary facts\<close>

lemma derivation_path_0: "derivation_path 0 = ''44'/354'/0'/0/0''"
  by (simp add: derivation_path_def string_of_nat.simps [of 0])


lemma progress_body_0: "progress_body 0 = ''Getting addresess 0 in progress.''"
  by (simp add: progress_body_def string_of_nat.simps [of 0])

lemma create_fail:
  "p (created w) = Inl err \<Longrightarrow>
   create p w = (Inl err, w\<lparr>created := Suc (created w), trace := trace w @ [Create (created w)]\<rparr>)"
  by (simp add: create_def Let_def)

lemma create_ok:
  "p (created w) = Inr t \<Longrightarrow>
   create p w = (Inr (created w, t), w\<lparr>created := Suc (created w), trace := trace w @ [Create (created w)]\<rparr>)"
  by (simp add: create_def Let_def)

lemma handleErrors_eq:
  "handleErrors err s =
     s\<lparr>transportError := Some (response ''failure''
          (if err_id err = Some ''NoDevice'' then ''DeviceNotConnected'' else ''AppNotOpen''))\<rparr>"
  by (simp add: handleErrors_def setTransportError_def)

lemma loop_without_device_info:
  "''get_device_info'' \<notin> set tasks \<Longrightarrow>
   executeLedgerLoop p tasks opts s w =
     try_catch (addressBody p tasks opts s w) (\<lambda>err s' w'. (Inr (), handleErrors err s', w'))"
  by (simp add: executeLedgerLoop_def)

lemma deviceInfoBody_flag: "deviceInfoBody p s w = (Inr b, s1, w1) \<Longrightarrow> \<not> b"
  by (auto simp: deviceInfoBody_def Let_def split: prod.splits sum.splits)

lemma loop_after_device_info:
  "''get_device_info'' \<in> set tasks \<Longrightarrow> deviceInfoBody p s w = (Inr b, s1, w1) \<Longrightarrow>
   executeLedgerLoop p tasks opts s w =
     try_catch (addressBody p tasks opts s1 w1) (\<lambda>err s' w'. (Inr (), handleErrors err s', w'))"
  using deviceInfoBody_flag [of p s w b s1 w1]
  by (simp add: executeLedgerLoop_def try_catch_def)

lemma loop_device_info_failed:
  "''get_device_info'' \<in> set tasks \<Longrightarrow> deviceInfoBody p s w = (Inl err, s1, w1) \<Longrightarrow>
   executeLedgerLoop p tasks opts s w = (Inr (), handleErrors err s1, w1)"
  by (simp add: executeLedgerLoop_def try_catch_def)

lemma handleGetAddress_ok:
  "deviceModel t = Some dm \<Longrightarrow> getAddress t (derivation_path i) False = Inr address \<Longrightarrow>
   handleGetAddress (h, t) i s w =
     (Inr (''ReceivedAddress'', dm, [address]),
      s\<lparr>transportResponse := Some ((response ''success'' ''GettingAddress'')
           \<lparr>body := Some (Text (progress_body i))\<rparr>)\<rparr>,
      w\<lparr>trace := trace w @ [GetAddress h (derivation_path i) False]\<rparr>)"
  by (simp add: handleGetAddress_def setTransportResponse_def Let_def)

lemma handleGetAddress_fail:
  "deviceModel t = Some dm \<Longrightarrow> getAddress t (derivation_path i) False = Inl err \<Longrightarrow>
   handleGetAddress (h, t) i s w =
     (Inl err,
      s\<lparr>transportResponse := Some ((response ''success'' ''GettingAddress'')
           \<lparr>body := Some (Text (progress_body i))\<rparr>)\<rparr>,
      w\<lparr>trace := trace w @ [GetAddress h (derivation_path i) False]\<rparr>)"
  by (simp add: handleGetAddress_def setTransportResponse_def Let_def)

lemma addressBody_fail:
  assumes "''get_address'' \<in> set tasks" "p (created w) = Inr t" "deviceModel t = Some dm"
    and "getAddress t (derivation_path (case accountIndex o' of None \<Rightarrow> 0 | Some i \<Rightarrow> i)) False = Inl err"
  shows "addressBody p tasks (Some o') s w =
     (Inl err,
      s\<lparr>transportResponse := Some ((response ''success'' ''GettingAddress'')
           \<lparr>body := Some (Text (progress_body (case accountIndex o' of None \<Rightarrow> 0 | Some i \<Rightarrow> i)))\<rparr>)\<rparr>,
      w\<lparr>created := Suc (created w),
        trace := trace w @ [Create (created w),
           GetAddress (created w) (derivation_path (case accountIndex o' of None \<Rightarrow> 0 | Some i \<Rightarrow> i)) False]\<rparr>)"
  using assms by (simp add: addressBody_def create_ok handleGetAddress_fail [where dm = dm])

lemma addressBody_ok:
  assumes "''get_address'' \<in> set tasks" "p (created w) = Inr t" "deviceModel t = Some dm"
    and "getAddress t (derivation_path (case accountIndex o' of None \<Rightarrow> 0 | Some i \<Rightarrow> i)) False = Inr address"
  shows "addressBody p tasks (Some o') s w =
     ((case close t of None \<Rightarrow> Inr () | Some err \<Rightarrow> Inl err),
      s\<lparr>transportResponse := Some \<lparr>ack = ''success'', statusCode = ''ReceivedAddress'',
           options = Some o', device = Some dm, body = Some (Addresses [address])\<rparr>\<rparr>,
      w\<lparr>created := Suc (created w),
        trace := trace w @ [Create (created w),
           GetAddress (created w) (derivation_path (case accountIndex o' of None \<Rightarrow> 0 | Some i \<Rightarrow> i)) False,
           Close (created w)]\<rparr>)"
  using assms
  by (simp add: addressBody_def create_ok handleGetAddress_ok [where dm = dm] close_transport_def
      setTransportResponse_def Let_def split: option.splits)





lemma loop_address_phase:
  assumes "(if ''get_device_info'' \<in> set tasks then deviceInfoBody p s w else (Inr False, s, w))
             = (Inr b, s1, w1)"
  shows "executeLedgerLoop p tasks opts s w =
     try_catch (addressBody p tasks opts s1 w1) (\<lambda>err s' w'. (Inr (), handleErrors err s', w'))"
proof (cases "''get_device_info'' \<in> set tasks")
  case True
  with assms show ?thesis by (simp add: loop_after_device_info)
next
  case False
  with assms show ?thesis by (simp add: loop_without_device_info)
qed


lemma loop_second_phase_failed:
  assumes "(if ''get_device_info'' \<in> set tasks then deviceInfoBody p s w else (Inr False, s, w))
             = (Inr b, s1, w1)"
    and "addressBody p tasks opts s1 w1 = (Inl err, s2, w2)"
  shows "executeLedgerLoop p tasks opts s w = (Inr (), handleErrors err s2, w2)"
  using assms by (simp add: loop_address_phase try_catch_def)












text \<open>
  The address phase against a handle that carries a device model and whose address
  derivation answers, for options \<open>{accountIndex: 0}\<close>.
\<close>

lemma address_received:
  assumes "p (created w) = Inr t" and "deviceModel t = Some dm"
    and "getAddress t ''44'/354'/0'/0/0'' False = Inr address"
  shows "transportResponse (fst (snd (executeLedgerLoop p [''get_address'']
             (Some \<lparr>accountIndex = Some 0\<rparr>) s w))) =
           Some \<lparr>ack = ''success'', statusCode = ''ReceivedAddress'',
                 options = Some \<lparr>accountIndex = Some 0\<rparr>,
                 device = Some \<lparr>id_field = id_field dm, productName = productName dm\<rparr>,
                 body = Some (Addresses [address])\<rparr>
         \<and> trace (snd (snd (executeLedgerLoop p [''get_address'']
             (Some \<lparr>accountIndex = Some 0\<rparr>) s w))) =
           trace w @ [Create (created w), GetAddress (created w) ''44'/354'/0'/0/0'' False,
                      Close (created w)]"
proof -
  have "addressBody p [''get_address''] (Some \<lparr>accountIndex = Some 0\<rparr>) s w =
     ((case close t of None \<Rightarrow> Inr () | Some err \<Rightarrow> Inl err),
      s\<lparr>transportResponse := Some \<lparr>ack = ''success'', statusCode = ''ReceivedAddress'',
           options = Some \<lparr>accountIndex = Some 0\<rparr>, device = Some dm,
           body = Some (Addresses [address])\<rparr>\<rparr>,
      w\<lparr>created := Suc (created w),
        trace := trace w @ [Create (created w),
           GetAddress (created w) ''44'/354'/0'/0/0'' False,
           Close (created w)]\<rparr>)"
    using addressBody_ok [of "[''get_address'']" p w t dm "\<lparr>accountIndex = Some 0\<rparr>" address s] assms
    by (simp add: derivation_path_0)
  then show ?thesis
    by (simp add: loop_without_device_info try_catch_def handleErrors_eq split: option.splits)
qed

lemma address_received_on_nano:
  "transportResponse (fst (snd (executeLedgerLoop provider_ok [''get_address'']
       (Some \<lparr>accountIndex = Some 0\<rparr>) initial_state env0))) =
     Some \<lparr>ack = ''success'', statusCode = ''ReceivedAddress'',
           options = Some \<lparr>accountIndex = Some 0\<rparr>,
           device = Some \<lparr>id_field = ''nanoS'', productName = ''Ledger Nano S''\<rparr>,
           body = Some (Addresses [''address at 44'/354'/0'/0/0''])\<rparr>
   \<and> trace (snd (snd (executeLedgerLoop provider_ok [''get_address'']
       (Some \<lparr>accountIndex = Some 0\<rparr>) initial_state env0))) =
     [Create 0, GetAddress 0 ''44'/354'/0'/0/0'' False, Close 0]"
  using address_received [of provider_ok env0 transport_ok nano
      "''address at 44'/354'/0'/0/0''" initial_state]
  by (simp add: provider_ok_def env0_def transport_ok_def nano_def)

section \<open>Properties of the device loop\<close>

text \<open>
  C1. When \<^verbatim>\<open>get_device_info\<close> is among the tasks and the provider's
  \<^verbatim>\<open>create()\<close> rejects with the no-device id, \<^verbatim>\<open>executeLedgerLoop\<close> returns
  normally, the only state slot it writes is the transport error, which becomes
  \<open>{failure, DeviceNotConnected}\<close> (so the device info is what it was), and the
  environment has seen exactly one \<^verbatim>\<open>create()\<close> call: the address phase did not run.
\<close>

theorem no_device_stops_the_loop:
  assumes "''get_device_info'' \<in> set tasks"
    and "p (created w) = Inl err" and "err_id err = Some ''NoDevice''"
  shows "executeLedgerLoop p tasks opts s w =
           (Inr (),
            s\<lparr>transportError := Some (response ''failure'' ''DeviceNotConnected'')\<rparr>,
            w\<lparr>created := Suc (created w), trace := trace w @ [Create (created w)]\<rparr>)
       \<and> transportError (fst (snd (executeLedgerLoop p tasks opts s w))) =
           Some \<lparr>ack = ''failure'', statusCode = ''DeviceNotConnected'', options = None,
                 device = None, body = None\<rparr>
       \<and> ledgerDeviceInfo (fst (snd (executeLedgerLoop p tasks opts s w))) = ledgerDeviceInfo s
       \<and> created (snd (snd (executeLedgerLoop p tasks opts s w))) = Suc (created w)"
proof -
  have "deviceInfoBody p s w =
          (Inl err, s, w\<lparr>created := Suc (created w), trace := trace w @ [Create (created w)]\<rparr>)"
    using assms(2) by (simp add: deviceInfoBody_def create_fail)
  then have "executeLedgerLoop p tasks opts s w =
           (Inr (),
            s\<lparr>transportError := Some (response ''failure'' ''DeviceNotConnected'')\<rparr>,
            w\<lparr>created := Suc (created w), trace := trace w @ [Create (created w)]\<rparr>)"
    using assms(1,3) by (simp add: loop_device_info_failed handleErrors_eq)
  then show ?thesis
    by (simp add: response_def)
qed

theorem no_device_stops_the_loop_witness:
  "executeLedgerLoop provider_no_device [''get_device_info''] None initial_state env0 =
     (Inr (),
      initial_state\<lparr>transportError := Some (response ''failure'' ''DeviceNotConnected'')\<rparr>,
      \<lparr>created = 1, trace = [Create 0]\<rparr>)"
  using no_device_stops_the_loop [of "[''get_device_info'']" provider_no_device env0
      "Rejected (Some ''NoDevice'')" None initial_state]
  by (simp add: provider_no_device_def env0_def)

text \<open>
  C2. The claim fails against a provider whose calls all succeed but whose handle has
  no device model: \<^verbatim>\<open>create()\<close> resolves, \<^verbatim>\<open>close()\<close> would resolve and the
  address derivation for path \<open>44'/354'/0'/0/0\<close> would answer, yet
  \<^verbatim>\<open>handleGetAddress\<close> throws on destructuring the device model before it asks
  for the address. The loop ends with \<open>{failure, AppNotOpen}\<close>, no transport response
  and no \<open>GetAddress\<close> event.
\<close>

theorem no_device_model_no_address:
  "provider_no_model 0 = Inr (transport_ok\<lparr>deviceModel := None\<rparr>)
   \<and> close (transport_ok\<lparr>deviceModel := None\<rparr>) = None
   \<and> getAddress (transport_ok\<lparr>deviceModel := None\<rparr>) ''44'/354'/0'/0/0'' False =
       Inr ''address at 44'/354'/0'/0/0''
   \<and> executeLedgerLoop provider_no_model [''get_address''] (Some \<lparr>accountIndex = Some 0\<rparr>)
       initial_state env0 =
       (Inr (),
        initial_state\<lparr>transportError := Some (response ''failure'' ''AppNotOpen'')\<rparr>,
        \<lparr>created = 1, trace = [Create 0]\<rparr>)
   \<and> transportResponse (fst (snd (executeLedgerLoop provider_no_model [''get_address'']
       (Some \<lparr>accountIndex = Some 0\<rparr>) initial_state env0))) = None"
proof -
  have "addressBody provider_no_model [''get_address''] (Some \<lparr>accountIndex = Some 0\<rparr>)
          initial_state env0 =
        (Inl TypeError, initial_state, \<lparr>created = 1, trace = [Create 0]\<rparr>)"
    by (simp add: addressBody_def create_def handleGetAddress_def Let_def provider_no_model_def
        transport_ok_def env0_def)
  then have "executeLedgerLoop provider_no_model [''get_address'']
        (Some \<lparr>accountIndex = Some 0\<rparr>) initial_state env0 =
       (Inr (),
        initial_state\<lparr>transportError := Some (response ''failure'' ''AppNotOpen'')\<rparr>,
        \<lparr>created = 1, trace = [Create 0]\<rparr>)"
    by (simp add: loop_without_device_info try_catch_def handleErrors_eq)
  then show ?thesis
    by (simp add: provider_no_model_def transport_ok_def initial_state_def)
qed






text \<open>
  C8 (as amended). When \<^verbatim>\<open>get_address\<close> is requested, the device-info phase was
  skipped or completed, \<^verbatim>\<open>create()\<close> resolved to a handle with a device model and
  the derivation call threw \<open>err\<close>, the body of the address phase stops at the throw
  with the in-progress notice already in the transport response, and the loop does
  not roll it back: it ends with that success-acknowledged notice in the transport
  response and a failure record in the transport error. The failure record is
  \<open>{failure, AppNotOpen}\<close> unless \<open>err\<close> carries the id \<open>NoDevice\<close>, when it is
  \<open>{failure, DeviceNotConnected}\<close>.
\<close>

theorem progress_notice_survives_failure:
  assumes "''get_address'' \<in> set tasks"
    and "(if ''get_device_info'' \<in> set tasks then deviceInfoBody p s w else (Inr False, s, w))
           = (Inr b, s1, w1)"
    and "p (created w1) = Inr t" and "deviceModel t = Some dm"
    and "getAddress t (derivation_path (case accountIndex o' of None \<Rightarrow> 0 | Some i \<Rightarrow> i)) False
           = Inl err"
  shows "fst (addressBody p tasks (Some o') s1 w1) = Inl err
       \<and> transportResponse (fst (snd (addressBody p tasks (Some o') s1 w1))) =
           Some \<lparr>ack = ''success'', statusCode = ''GettingAddress'', options = None,
                 device = None,
                 body = Some (Text (progress_body
                   (case accountIndex o' of None \<Rightarrow> 0 | Some i \<Rightarrow> i)))\<rparr>
       \<and> transportResponse (fst (snd (executeLedgerLoop p tasks (Some o') s w))) =
           Some \<lparr>ack = ''success'', statusCode = ''GettingAddress'', options = None,
                 device = None,
                 body = Some (Text (progress_body
                   (case accountIndex o' of None \<Rightarrow> 0 | Some i \<Rightarrow> i)))\<rparr>
       \<and> transportError (fst (snd (executeLedgerLoop p tasks (Some o') s w))) =
           Some (response ''failure''
             (if err_id err = Some ''NoDevice'' then ''DeviceNotConnected'' else ''AppNotOpen''))"
proof -
  let ?i = "case accountIndex o' of None \<Rightarrow> 0 | Some i \<Rightarrow> i"
  let ?s2 = "s1\<lparr>transportResponse := Some ((response ''success'' ''GettingAddress'')
               \<lparr>body := Some (Text (progress_body ?i))\<rparr>)\<rparr>"
  let ?w2 = "w1\<lparr>created := Suc (created w1),
               trace := trace w1 @ [Create (created w1),
                 GetAddress (created w1) (derivation_path ?i) False]\<rparr>"
  have body: "addressBody p tasks (Some o') s1 w1 = (Inl err, ?s2, ?w2)"
    using assms(1,3,4,5) by (rule addressBody_fail)
  have "executeLedgerLoop p tasks (Some o') s w = (Inr (), handleErrors err ?s2, ?w2)"
    using assms(2) body by (rule loop_second_phase_failed)
  with body show ?thesis
    by (simp add: handleErrors_eq response_def)
qed

theorem progress_notice_survives_failure_witness:
  "transportResponse (fst (snd (executeLedgerLoop provider_refused [''get_address'']
       (Some \<lparr>accountIndex = None\<rparr>) initial_state env0))) =
     Some \<lparr>ack = ''success'', statusCode = ''GettingAddress'', options = None, device = None,
           body = Some (Text ''Getting addresess 0 in progress.'')\<rparr>
   \<and> transportError (fst (snd (executeLedgerLoop provider_refused [''get_address'']
       (Some \<lparr>accountIndex = None\<rparr>) initial_state env0))) =
     Some (response ''failure'' ''AppNotOpen'')"
proof -
  have 1: "''get_address'' \<in> set [''get_address'']"
    by simp
  have 2: "(if ''get_device_info'' \<in> set [''get_address'']
       then deviceInfoBody provider_refused initial_state env0
       else (Inr False, initial_state, env0)) = (Inr False, initial_state, env0)"
    by simp
  have 3: "provider_refused (created env0) = Inr (transport_ok\<lparr>getAddress := derive_refused\<rparr>)"
    by (simp add: provider_refused_def)
  have 4: "deviceModel (transport_ok\<lparr>getAddress := derive_refused\<rparr>) = Some nano"
    by (simp add: transport_ok_def)
  have 5: "getAddress (transport_ok\<lparr>getAddress := derive_refused\<rparr>)
        (derivation_path (case accountIndex \<lparr>accountIndex = None\<rparr> of None \<Rightarrow> 0 | Some i \<Rightarrow> i))
        False = Inl (Rejected (Some ''TransportStatusError''))"
    by simp
  show ?thesis
    using progress_notice_survives_failure [OF 1 2 3 4 5]
    by (simp add: progress_body_0)
qed

text \<open>
  The claim as written fails where the derivation call is refused with the no-device
  id: the notice for account 0 stays in the transport response, and the transport
  error beside it is \<open>{failure, DeviceNotConnected}\<close>, not \<open>{failure, AppNotOpen}\<close>.
\<close>

theorem progress_notice_beside_no_device:
  "fst (addressBody provider_lost [''get_address''] (Some \<lparr>accountIndex = Some 0\<rparr>)
          initial_state env0) = Inl (Rejected (Some ''NoDevice''))
   \<and> trace (snd (snd (addressBody provider_lost [''get_address'']
          (Some \<lparr>accountIndex = Some 0\<rparr>) initial_state env0))) =
       [Create 0, GetAddress 0 ''44'/354'/0'/0/0'' False]
   \<and> transportResponse (fst (snd (executeLedgerLoop provider_lost [''get_address'']
         (Some \<lparr>accountIndex = Some 0\<rparr>) initial_state env0))) =
       Some \<lparr>ack = ''success'', statusCode = ''GettingAddress'', options = None, device = None,
             body = Some (Text ''Getting addresess 0 in progress.'')\<rparr>
   \<and> transportError (fst (snd (executeLedgerLoop provider_lost [''get_address'']
         (Some \<lparr>accountIndex = Some 0\<rparr>) initial_state env0))) \<noteq>
       Some (response ''failure'' ''AppNotOpen'')"
proof -
  have "addressBody provider_lost [''get_address''] (Some \<lparr>accountIndex = Some 0\<rparr>)
          initial_state env0 =
        (Inl (Rejected (Some ''NoDevice'')),
         initial_state\<lparr>transportResponse := Some ((response ''success'' ''GettingAddress'')
             \<lparr>body := Some (Text ''Getting addresess 0 in progress.'')\<rparr>)\<rparr>,
         \<lparr>created = 1, trace = [Create 0, GetAddress 0 ''44'/354'/0'/0/0'' False]\<rparr>)"
    using addressBody_fail [of "[''get_address'']" provider_lost env0
        "transport_ok\<lparr>getAddress := derive_no_device\<rparr>" nano "\<lparr>accountIndex = Some 0\<rparr>"
        "Rejected (Some ''NoDevice'')" initial_state]
    by (simp add: provider_lost_def transport_ok_def env0_def derivation_path_0 progress_body_0)
  then show ?thesis
    by (simp add: loop_without_device_info try_catch_def handleErrors_eq response_def)
qed

text \<open>
  C6. The claim fails on the failure path of the address phase. Against a provider
  whose \<^verbatim>\<open>create()\<close> resolves and whose address derivation is refused, the loop
  ends with handle 0 created, asked for the address, and never closed.
\<close>

theorem refused_address_leaves_handle_open:
  "executeLedgerLoop provider_refused [''get_address''] (Some \<lparr>accountIndex = Some 0\<rparr>)
     initial_state env0 =
     (Inr (),
      initial_state\<lparr>transportResponse :=
          Some \<lparr>ack = ''success'', statusCode = ''GettingAddress'', options = None,
                device = None, body = Some (Text ''Getting addresess 0 in progress.'')\<rparr>,
        transportError := Some (response ''failure'' ''AppNotOpen'')\<rparr>,
      \<lparr>created = 1, trace = [Create 0, GetAddress 0 ''44'/354'/0'/0/0'' False]\<rparr>)
   \<and> Close 0 \<notin> set (trace (snd (snd (executeLedgerLoop provider_refused [''get_address'']
        (Some \<lparr>accountIndex = Some 0\<rparr>) initial_state env0))))"
proof -
  have "addressBody provider_refused [''get_address''] (Some \<lparr>accountIndex = Some 0\<rparr>)
          initial_state env0 =
        (Inl (Rejected (Some ''TransportStatusError'')),
         initial_state\<lparr>transportResponse := Some ((response ''success'' ''GettingAddress'')
             \<lparr>body := Some (Text ''Getting addresess 0 in progress.'')\<rparr>)\<rparr>,
         \<lparr>created = 1, trace = [Create 0, GetAddress 0 ''44'/354'/0'/0/0'' False]\<rparr>)"
    using addressBody_fail [of "[''get_address'']" provider_refused env0
        "transport_ok\<lparr>getAddress := derive_refused\<rparr>" nano "\<lparr>accountIndex = Some 0\<rparr>"
        "Rejected (Some ''TransportStatusError'')" initial_state]
    by (simp add: provider_refused_def transport_ok_def env0_def derivation_path_0
        progress_body_0)
  then show ?thesis
    by (simp add: loop_without_device_info try_catch_def handleErrors_eq response_def)
qed

text \<open>
  C7. The claim fails when no options argument is supplied. Against a provider that
  answers every call, \<^verbatim>\<open>executeLedgerLoop(['get_address'])\<close> throws on reading
  \<^verbatim>\<open>options.accountIndex\<close>: the address-fetch sub-routine is never invoked (no
  \<open>GetAddress\<close> event), and the loop records \<open>{failure, AppNotOpen}\<close>. With an
  options object that has no account index, the sub-routine is invoked with index 0.
\<close>

theorem absent_options_skip_address_fetch:
  "executeLedgerLoop provider_ok [''get_address''] None initial_state env0 =
     (Inr (),
      initial_state\<lparr>transportError := Some (response ''failure'' ''AppNotOpen'')\<rparr>,
      \<lparr>created = 1, trace = [Create 0]\<rparr>)
   \<and> trace (snd (snd (executeLedgerLoop provider_ok [''get_address'']
        (Some \<lparr>accountIndex = None\<rparr>) initial_state env0))) =
       [Create 0, GetAddress 0 ''44'/354'/0'/0/0'' False, Close 0]"
proof
  have "addressBody provider_ok [''get_address''] None initial_state env0 =
          (Inl TypeError, initial_state, \<lparr>created = 1, trace = [Create 0]\<rparr>)"
    by (simp add: addressBody_def create_def Let_def provider_ok_def env0_def)
  then show "executeLedgerLoop provider_ok [''get_address''] None initial_state env0 =
     (Inr (),
      initial_state\<lparr>transportError := Some (response ''failure'' ''AppNotOpen'')\<rparr>,
      \<lparr>created = 1, trace = [Create 0]\<rparr>)"
    by (simp add: loop_without_device_info try_catch_def handleErrors_eq)
next
  have "addressBody provider_ok [''get_address''] (Some \<lparr>accountIndex = None\<rparr>)
          initial_state env0 =
        (Inr (),
         initial_state\<lparr>transportResponse := Some \<lparr>ack = ''success'',
             statusCode = ''ReceivedAddress'', options = Some \<lparr>accountIndex = None\<rparr>,
             device = Some nano,
             body = Some (Addresses [''address at 44'/354'/0'/0/0''])\<rparr>\<rparr>,
         \<lparr>created = 1,
          trace = [Create 0, GetAddress 0 ''44'/354'/0'/0/0'' False, Close 0]\<rparr>)"
    using addressBody_ok [of "[''get_address'']" provider_ok env0 transport_ok nano
        "\<lparr>accountIndex = None\<rparr>" "''address at 44'/354'/0'/0/0''" initial_state]
    by (simp add: provider_ok_def transport_ok_def env0_def derivation_path_0)
  then show "trace (snd (snd (executeLedgerLoop provider_ok [''get_address'']
        (Some \<lparr>accountIndex = None\<rparr>) initial_state env0))) =
       [Create 0, GetAddress 0 ''44'/354'/0'/0/0'' False, Close 0]"
    by (simp add: loop_without_device_info try_catch_def)
qed

section \<open>Properties of the status codes and of pairing\<close>



text \<open>
  C9. \<^verbatim>\<open>resetStatusCodes\<close> empties the status-code list and its mirror and leaves
  every other slot as it was: the importing flag, the pairing status, their mirrors,
  the transport error, the device info and the transport response.
\<close>

theorem reset_clears_only_status_codes:
  "resetStatusCodes s = s\<lparr>statusCodes := [], statusCodesRef := []\<rparr>
   \<and> statusCodes (resetStatusCodes s) = []
   \<and> statusCodesRef (resetStatusCodes s) = []
   \<and> isImporting (resetStatusCodes s) = isImporting s
   \<and> isImportingRef (resetStatusCodes s) = isImportingRef s
   \<and> isPaired (resetStatusCodes s) = isPaired s
   \<and> isPairedRef (resetStatusCodes s) = isPairedRef s
   \<and> transportError (resetStatusCodes s) = transportError s
   \<and> ledgerDeviceInfo (resetStatusCodes s) = ledgerDeviceInfo s
   \<and> transportResponse (resetStatusCodes s) = transportResponse s"
  by (simp add: resetStatusCodes_def setStateWithRef_def)

text \<open>
  C10. \<^verbatim>\<open>checkPaired\<close> answers false when the provider's \<^verbatim>\<open>create()\<close> rejects
  and true when it resolves, and in both cases hands back the state it was given:
  no slot is written.
\<close>

theorem checkPaired_probe:
  "(\<forall>err. p (created w) = Inl err \<longrightarrow> \<not> fst (checkPaired p s w))
   \<and> (\<forall>t. p (created w) = Inr t \<longrightarrow> fst (checkPaired p s w))
   \<and> fst (snd (checkPaired p s w)) = s"
  by (cases "p (created w)") (simp_all add: checkPaired_def create_def Let_def)

theorem checkPaired_probe_witness:
  "\<not> fst (checkPaired provider_no_device initial_state env0)
   \<and> fst (checkPaired provider_ok initial_state env0)
   \<and> fst (snd (checkPaired provider_no_device initial_state env0)) = initial_state
   \<and> fst (snd (checkPaired provider_ok initial_state env0)) = initial_state"
  using checkPaired_probe [of provider_no_device env0 initial_state]
    checkPaired_probe [of provider_ok env0 initial_state]
  by (simp add: provider_no_device_def provider_ok_def)

end
